theory Spec2Isabelle
  imports Main "HOL-Library.Sublist"
begin

section \<open>The bootstrap of the caps-controller-manager\<close>

text \<open>
  The program is \<^verbatim>\<open>app/caps-controller-manager/main.go\<close>: it parses three flags,
  starts a debug listener in a goroutine, builds a controller-runtime manager, an event
  recorder, and then installs either three reconcilers or four webhooks on the manager
  before it starts it.

  Everything \<^verbatim>\<open>main\<close> does is a call to a collaborator (controller-runtime,
  client-go, the reconcilers and webhook types of the repository, go-debug), so the model is
  a function from the command line and from the outcomes of those calls (the record
  \<open>env\<close>) to the sequence of calls made, in program order (\<open>trace\<close>), together with
  the event broadcasters allocated (\<open>broadcasters\<close>). Every \<^verbatim>\<open>os.Exit\<close> is the
  last event of its branch.
\<close>

subsection \<open>Values handed between the collaborators\<close>

type_synonym err = string
  \<comment> \<open>a non-nil Go \<^verbatim>\<open>error\<close>, by its message\<close>

datatype type_group = clientgoscheme | capiv1 | infrav1alpha2 | infrav1alpha3 | metalv1alpha1

type_synonym runtime_Scheme = "type_group list"
  \<comment> \<open>a \<^verbatim>\<open>*runtime.Scheme\<close>, by the type groups added to it\<close>

datatype rest_Config = RestConfig nat
datatype client_Client = Client nat
datatype Clientset = Clientset nat

type_synonym logr_Logger = "string list"
  \<comment> \<open>a logger, by the names given with \<^verbatim>\<open>WithName\<close>, outermost first\<close>

type_synonym broadcaster = nat
  \<comment> \<open>the address of an event broadcaster: its index among the broadcasters allocated\<close>

record CorrelatorOptions =
  BurstSize :: int
  \<comment> \<open>the only field the program sets; the others keep their zero values\<close>

record ctrl_Options =
  Scheme :: runtime_Scheme
  MetricsBindAddress :: string
  LeaderElection :: bool
  LeaderElectionID :: string
  Port :: int
  EventBroadcaster :: broadcaster

record controller_Options =
  MaxConcurrentReconciles :: int

text \<open>What the program reads from the manager: \<^verbatim>\<open>mgr.GetClient()\<close>,
  \<^verbatim>\<open>mgr.GetScheme()\<close> and \<^verbatim>\<open>mgr.GetConfig()\<close>.\<close>

record Manager =
  GetClient :: client_Client
  GetScheme :: runtime_Scheme
  GetConfig :: rest_Config

record EventSource =
  Component :: string

text \<open>An event recorder remembers the broadcaster it was made from.\<close>

record EventRecorder =
  recorder_broadcaster :: broadcaster
  recorder_scheme :: runtime_Scheme
  recorder_source :: EventSource

datatype EventSink = EventSinkImpl Clientset string
  \<comment> \<open>\<^verbatim>\<open>EventSinkImpl{Interface: clientset.CoreV1().Events(ns)}\<close>\<close>

text \<open>The three reconciler literals of \<^verbatim>\<open>main\<close>, each with the fields it sets.\<close>

datatype reconciler =
    MetalClusterReconciler client_Client logr_Logger runtime_Scheme
  | MetalMachineReconciler client_Client logr_Logger runtime_Scheme EventRecorder
  | ServerBindingReconciler client_Client logr_Logger runtime_Scheme EventRecorder

text \<open>The API types of \<^verbatim>\<open>infrav1alpha3\<close> the program names.\<close>

datatype kind = MetalCluster | MetalMachine | MetalMachineTemplate | ServerBinding

subsection \<open>The calls the program makes\<close>

datatype event =
    EvSetLogger bool
      \<comment> \<open>\<^verbatim>\<open>ctrl.SetLogger(zap.New(...))\<close>, with the value of \<^verbatim>\<open>Development\<close>\<close>
  | EvGo string
      \<comment> \<open>the \<^verbatim>\<open>go\<close> statement: the goroutine of the debug listener, with its address\<close>
  | EvNewBroadcaster broadcaster "CorrelatorOptions option"
  | EvGetConfigOrDie "rest_Config option"
  | EvNewManager ctrl_Options "err + Manager"
  | EvNewForConfig rest_Config "err + Clientset"
  | EvStartRecordingToSink broadcaster EventSink
  | EvNewRecorder EventRecorder
  | EvSetupWithManager reconciler controller_Options "err option"
  | EvSetupWebhookWithManager kind "err option"
  | EvInfo logr_Logger string
  | EvError logr_Logger err string "(string \<times> string) list"
  | EvStart
  | EvExit int

record world =
  broadcasters :: "CorrelatorOptions option list"
    \<comment> \<open>the broadcasters allocated so far; \<open>None\<close> is one made without correlator options\<close>
  trace :: "event list"

text \<open>How \<^verbatim>\<open>mgr.Start\<close> ends: it blocks until the signal handler's channel closes,
  so it may never return.\<close>

datatype start_result = Blocks | Returns "err option"

text \<open>The outcomes of the calls to the collaborators. The goroutine's
  \<^verbatim>\<open>debug.ListenAndServe\<close> either keeps serving (\<open>None\<close>) or returns an error
  after the main goroutine has made \<open>k\<close> further calls (\<open>Some (k, e)\<close>).\<close>

record env =
  ctrl_GetConfig :: "err + rest_Config"
  ctrl_NewManager :: "rest_Config \<Rightarrow> ctrl_Options \<Rightarrow> err + Manager"
  kubernetes_NewForConfig :: "rest_Config \<Rightarrow> err + Clientset"
  SetupWithManager :: "reconciler \<Rightarrow> Manager \<Rightarrow> controller_Options \<Rightarrow> err option"
  SetupWebhookWithManager :: "kind \<Rightarrow> Manager \<Rightarrow> err option"
  mgr_Start :: "Manager \<Rightarrow> start_result"
  debug_ListenAndServe :: "(nat \<times> err) option"

subsection \<open>Package level: constants, variables and \<^verbatim>\<open>init\<close>\<close>

definition debugAddr :: string where
  "debugAddr = '':9994''"

definition setupLog :: logr_Logger where
  "setupLog = [''setup'']"

definition AddToScheme :: "type_group \<Rightarrow> runtime_Scheme \<Rightarrow> runtime_Scheme" where
  "AddToScheme g s = s @ [g]"

text \<open>\<^verbatim>\<open>scheme = runtime.NewScheme()\<close>, then \<^verbatim>\<open>init\<close> adds five type groups and
  drops the error each \<^verbatim>\<open>AddToScheme\<close> returns.\<close>

definition scheme :: runtime_Scheme where
  "scheme =
     AddToScheme metalv1alpha1
       (AddToScheme infrav1alpha3
         (AddToScheme infrav1alpha2
           (AddToScheme capiv1
             (AddToScheme clientgoscheme []))))"

subsection \<open>Flags\<close>

text \<open>The three variables the flags are bound to. A command line that \<^verbatim>\<open>flag.Parse\<close>
  accepts is a list of settings, applied in order over the defaults given at
  \<^verbatim>\<open>StringVar\<close>, \<^verbatim>\<open>BoolVar\<close> and \<^verbatim>\<open>IntVar\<close>. Go's \<^verbatim>\<open>int\<close> is read as a
  mathematical integer: the program only compares it with zero and passes it on.\<close>

record config =
  metricsAddr :: string
  enableLeaderElection :: bool
  webhookPort :: int

datatype flag_arg =
    metrics_addr string
  | enable_leader_election bool
  | webhook_port int

definition flag_defaults :: config where
  "flag_defaults =
     \<lparr>metricsAddr = '':8080'', enableLeaderElection = True, webhookPort = 0\<rparr>"

fun flag_Set :: "config \<Rightarrow> flag_arg \<Rightarrow> config" where
  "flag_Set c (metrics_addr s) = c\<lparr>metricsAddr := s\<rparr>"
| "flag_Set c (enable_leader_election b) = c\<lparr>enableLeaderElection := b\<rparr>"
| "flag_Set c (webhook_port n) = c\<lparr>webhookPort := n\<rparr>"

definition flag_Parse :: "flag_arg list \<Rightarrow> config" where
  "flag_Parse args = foldl flag_Set flag_defaults args"

subsection \<open>Effects\<close>

definition emit :: "event list \<Rightarrow> world \<Rightarrow> world" where
  "emit es w = w\<lparr>trace := trace w @ es\<rparr>"

definition os_Exit :: "int \<Rightarrow> world \<Rightarrow> world" where
  "os_Exit n w = emit [EvExit n] w"

definition setupLog_Info :: "string \<Rightarrow> world \<Rightarrow> world" where
  "setupLog_Info msg w = emit [EvInfo setupLog msg] w"

definition setupLog_Error :: "err \<Rightarrow> string \<Rightarrow> (string \<times> string) list \<Rightarrow> world \<Rightarrow> world" where
  "setupLog_Error e msg kvs w = emit [EvError setupLog e msg kvs] w"

text \<open>Each constructor of client-go's \<^verbatim>\<open>record\<close> package allocates a new broadcaster.\<close>

definition NewBroadcasterWithCorrelatorOptions ::
    "CorrelatorOptions \<Rightarrow> world \<Rightarrow> broadcaster \<times> world" where
  "NewBroadcasterWithCorrelatorOptions opts w =
     (let b = length (broadcasters w)
      in (b, emit [EvNewBroadcaster b (Some opts)]
               (w\<lparr>broadcasters := broadcasters w @ [Some opts]\<rparr>)))"

definition NewBroadcaster :: "world \<Rightarrow> broadcaster \<times> world" where
  "NewBroadcaster w =
     (let b = length (broadcasters w)
      in (b, emit [EvNewBroadcaster b None] (w\<lparr>broadcasters := broadcasters w @ [None]\<rparr>)))"

definition StartRecordingToSink :: "broadcaster \<Rightarrow> EventSink \<Rightarrow> world \<Rightarrow> world" where
  "StartRecordingToSink b sink w = emit [EvStartRecordingToSink b sink] w"

definition NewRecorder ::
    "broadcaster \<Rightarrow> runtime_Scheme \<Rightarrow> EventSource \<Rightarrow> world \<Rightarrow> EventRecorder \<times> world" where
  "NewRecorder b s src w =
     (let r = \<lparr>recorder_broadcaster = b, recorder_scheme = s, recorder_source = src\<rparr>
      in (r, emit [EvNewRecorder r] w))"

subsection \<open>\<^verbatim>\<open>main\<close>\<close>

text \<open>Lines 113 to 140: the three reconcilers. \<open>Inl\<close> is a process that has exited.\<close>

definition setup_reconcilers :: "env \<Rightarrow> Manager \<Rightarrow> EventRecorder \<Rightarrow> world \<Rightarrow> world + world" where
  "setup_reconcilers e mgr recorder w0 =
     (let r1 = MetalClusterReconciler (GetClient mgr)
                 [''controllers'', ''MetalCluster''] (GetScheme mgr);
          o1 = \<lparr>MaxConcurrentReconciles = 10\<rparr>;
          err1 = SetupWithManager e r1 mgr o1;
          w1 = emit [EvSetupWithManager r1 o1 err1] w0
      in case err1 of
           Some err \<Rightarrow>
             Inl (os_Exit 1 (setupLog_Error err ''unable to create controller''
                    [(''controller'', ''MetalCluster'')] w1))
         | None \<Rightarrow>
     (let r2 = MetalMachineReconciler (GetClient mgr)
                 [''controllers'', ''MetalMachine''] (GetScheme mgr) recorder;
          o2 = \<lparr>MaxConcurrentReconciles = 10\<rparr>;
          err2 = SetupWithManager e r2 mgr o2;
          w2 = emit [EvSetupWithManager r2 o2 err2] w1
      in case err2 of
           Some err \<Rightarrow>
             Inl (os_Exit 1 (setupLog_Error err ''unable to create controller''
                    [(''controller'', ''MetalMachine'')] w2))
         | None \<Rightarrow>
     (let r3 = ServerBindingReconciler (GetClient mgr)
                 [''controllers'', ''ServerBinding''] (GetScheme mgr) recorder;
          o3 = \<lparr>MaxConcurrentReconciles = 10\<rparr>;
          err3 = SetupWithManager e r3 mgr o3;
          w3 = emit [EvSetupWithManager r3 o3 err3] w2
      in case err3 of
           Some err \<Rightarrow>
             Inl (os_Exit 1 (setupLog_Error err ''unable to create controller''
                    [(''controller'', ''ServerBinding'')] w3))
         | None \<Rightarrow> Inr w3)))"

text \<open>Lines 142 to 160: the four webhooks.\<close>

definition setup_webhooks :: "env \<Rightarrow> Manager \<Rightarrow> world \<Rightarrow> world + world" where
  "setup_webhooks e mgr w0 =
     (let err1 = SetupWebhookWithManager e MetalCluster mgr;
          w1 = emit [EvSetupWebhookWithManager MetalCluster err1] w0
      in case err1 of
           Some err \<Rightarrow>
             Inl (os_Exit 1 (setupLog_Error err ''unable to create webhook''
                    [(''webhook'', ''MetalCluster'')] w1))
         | None \<Rightarrow>
     (let err2 = SetupWebhookWithManager e MetalMachine mgr;
          w2 = emit [EvSetupWebhookWithManager MetalMachine err2] w1
      in case err2 of
           Some err \<Rightarrow>
             Inl (os_Exit 1 (setupLog_Error err ''unable to create webhook''
                    [(''webhook'', ''MetalMachine'')] w2))
         | None \<Rightarrow>
     (let err3 = SetupWebhookWithManager e MetalMachineTemplate mgr;
          w3 = emit [EvSetupWebhookWithManager MetalMachineTemplate err3] w2
      in case err3 of
           Some err \<Rightarrow>
             Inl (os_Exit 1 (setupLog_Error err ''unable to create webhook''
                    [(''webhook'', ''MetalMachineTemplate'')] w3))
         | None \<Rightarrow>
     (let err4 = SetupWebhookWithManager e ServerBinding mgr;
          w4 = emit [EvSetupWebhookWithManager ServerBinding err4] w3
      in case err4 of
           Some err \<Rightarrow>
             Inl (os_Exit 1 (setupLog_Error err ''unable to create webhook''
                    [(''webhook'', ''ServerBinding'')] w4))
         | None \<Rightarrow> Inr w4))))"

text \<open>Lines 164 to 169. When \<^verbatim>\<open>mgr.Start\<close> returns nil, \<^verbatim>\<open>main\<close> returns and the
  process ends with status 0; when it blocks, \<open>EvStart\<close> stays the last event.\<close>

definition start_manager :: "env \<Rightarrow> Manager \<Rightarrow> world \<Rightarrow> world" where
  "start_manager e mgr w0 =
     (let w1 = emit [EvStart] (setupLog_Info ''starting manager'' w0)
      in case mgr_Start e mgr of
           Blocks \<Rightarrow> w1
         | Returns None \<Rightarrow> os_Exit 0 w1
         | Returns (Some err) \<Rightarrow>
             os_Exit 1 (setupLog_Error err ''problem running manager'' [] w1))"

text \<open>Lines 96 to 162, once the manager is there.\<close>

definition main_with_manager :: "config \<Rightarrow> env \<Rightarrow> Manager \<Rightarrow> world \<Rightarrow> world" where
  "main_with_manager cfg e mgr w0 =
     (let res = kubernetes_NewForConfig e (GetConfig mgr);
          w1 = emit [EvNewForConfig (GetConfig mgr) res] w0
      in case res of
           Inl err \<Rightarrow> os_Exit 1 (setupLog_Error err ''unable to create k8s client'' [] w1)
         | Inr clientset \<Rightarrow>
     (let (eventBroadcaster, w2) = NewBroadcaster w1;
          w3 = StartRecordingToSink eventBroadcaster (EventSinkImpl clientset []) w2;
          (recorder, w4) = NewRecorder eventBroadcaster (GetScheme mgr)
                             \<lparr>Component = ''caps-controller-manager''\<rparr> w3
      in case (if webhookPort cfg = 0 then setup_reconcilers e mgr recorder w4
               else setup_webhooks e mgr w4) of
           Inl w5 \<Rightarrow> w5
         | Inr w5 \<Rightarrow> start_manager e mgr w5))"

text \<open>Lines 63 to 75: the logger and the \<^verbatim>\<open>go\<close> statement.\<close>

definition startup :: world where
  "startup = emit [EvSetLogger True, EvGo debugAddr] \<lparr>broadcasters = [], trace = []\<rparr>"

text \<open>Lines 79 to 94. \<^verbatim>\<open>ctrl.GetConfigOrDie\<close> ends the process with status 1 when there
  is no configuration for the cluster.\<close>

definition manager_options :: "config \<Rightarrow> broadcaster \<Rightarrow> ctrl_Options" where
  "manager_options cfg b =
     \<lparr>Scheme = scheme,
      MetricsBindAddress = metricsAddr cfg,
      LeaderElection = enableLeaderElection cfg,
      LeaderElectionID = ''controller-leader-election-capm'',
      Port = webhookPort cfg,
      EventBroadcaster = b\<rparr>"

definition main_body :: "config \<Rightarrow> env \<Rightarrow> world \<Rightarrow> world" where
  "main_body cfg e w0 =
     (let (broadcaster, w1) =
            NewBroadcasterWithCorrelatorOptions \<lparr>BurstSize = 100\<rparr> w0
      in case ctrl_GetConfig e of
           Inl err \<Rightarrow> os_Exit 1 (emit [EvGetConfigOrDie None] w1)
         | Inr rc \<Rightarrow>
     (let opts = manager_options cfg broadcaster;
          res = ctrl_NewManager e rc opts;
          w2 = emit [EvGetConfigOrDie (Some rc), EvNewManager opts res] w1
      in case res of
           Inl err \<Rightarrow> os_Exit 1 (setupLog_Error err ''unable to start manager'' [] w2)
         | Inr mgr \<Rightarrow> main_with_manager cfg e mgr w2))"

definition main :: "flag_arg list \<Rightarrow> env \<Rightarrow> world" where
  "main args e = main_body (flag_Parse args) e startup"

subsection \<open>The debug listener and the process\<close>

text \<open>Lines 67 to 75, the goroutine: when \<^verbatim>\<open>debug.ListenAndServe\<close> returns an error
  it logs it and ends the process. (What the listener writes through
  \<^verbatim>\<open>debugLogFunc\<close> while it serves is not recorded.)\<close>

definition debug_sidecar :: "err \<Rightarrow> event list" where
  "debug_sidecar err = [EvError setupLog err ''failed to start debug server'' [], EvExit 1]"

fun is_exit :: "event \<Rightarrow> bool" where
  "is_exit (EvExit n) = True"
| "is_exit _ = False"

text \<open>The goroutine exists once the \<^verbatim>\<open>go\<close> statement has run. \<open>main_until k\<close> is
  what the main goroutine has done by the time it has made \<open>k\<close> more calls after it.\<close>

definition main_until :: "nat \<Rightarrow> flag_arg list \<Rightarrow> env \<Rightarrow> event list" where
  "main_until k args e = take (length (trace startup) + k) (trace (main args e))"

text \<open>The process is the main goroutine, cut short by the goroutine of the listener when
  that one's call returns an error while the process is still alive; the two statements of
  its error branch are taken as one step. An error that would come after the main goroutine
  has ended the process is never seen.\<close>

definition process :: "flag_arg list \<Rightarrow> env \<Rightarrow> event list" where
  "process args e =
     (case debug_ListenAndServe e of
        None \<Rightarrow> trace (main args e)
      | Some (k, err) \<Rightarrow>
          if list_ex is_exit (main_until k args e) then trace (main args e)
          else main_until k args e @ debug_sidecar err)"

subsection \<open>What a run has done\<close>

text \<open>The status the process ended with, when it has ended.\<close>

definition exit_status :: "event list \<Rightarrow> int option" where
  "exit_status t =
     (case rev t of
        EvExit n # _ \<Rightarrow> Some n
      | _ \<Rightarrow> None)"

text \<open>The reconcilers and webhooks whose setup was called, and those it returned nil
  for.\<close>

fun reconciler_setup :: "event \<Rightarrow> (reconciler \<times> controller_Options \<times> err option) list" where
  "reconciler_setup (EvSetupWithManager r opts res) = [(r, opts, res)]"
| "reconciler_setup _ = []"

fun webhook_setup :: "event \<Rightarrow> (kind \<times> err option) list" where
  "webhook_setup (EvSetupWebhookWithManager k res) = [(k, res)]"
| "webhook_setup _ = []"

definition reconciler_setups :: "event list \<Rightarrow> (reconciler \<times> controller_Options \<times> err option) list" where
  "reconciler_setups t = concat (map reconciler_setup t)"

definition webhook_setups :: "event list \<Rightarrow> (kind \<times> err option) list" where
  "webhook_setups t = concat (map webhook_setup t)"

definition registered_reconcilers :: "event list \<Rightarrow> (reconciler \<times> controller_Options) list" where
  "registered_reconcilers t =
     map (\<lambda>(r, opts, res). (r, opts)) (filter (\<lambda>(r, opts, res). res = None) (reconciler_setups t))"

definition registered_webhooks :: "event list \<Rightarrow> kind list" where
  "registered_webhooks t = map fst (filter (\<lambda>(k, res). res = None) (webhook_setups t))"

text \<open>The API type a reconciler is for, the name of a type, and the fields of a
  reconciler literal.\<close>

fun reconciles :: "reconciler \<Rightarrow> kind" where
  "reconciles (MetalClusterReconciler c l s) = MetalCluster"
| "reconciles (MetalMachineReconciler c l s r) = MetalMachine"
| "reconciles (ServerBindingReconciler c l s r) = ServerBinding"

fun kind_name :: "kind \<Rightarrow> string" where
  "kind_name MetalCluster = ''MetalCluster''"
| "kind_name MetalMachine = ''MetalMachine''"
| "kind_name MetalMachineTemplate = ''MetalMachineTemplate''"
| "kind_name ServerBinding = ''ServerBinding''"

fun reconciler_Client :: "reconciler \<Rightarrow> client_Client" where
  "reconciler_Client (MetalClusterReconciler c l s) = c"
| "reconciler_Client (MetalMachineReconciler c l s r) = c"
| "reconciler_Client (ServerBindingReconciler c l s r) = c"

fun reconciler_Scheme :: "reconciler \<Rightarrow> runtime_Scheme" where
  "reconciler_Scheme (MetalClusterReconciler c l s) = s"
| "reconciler_Scheme (MetalMachineReconciler c l s r) = s"
| "reconciler_Scheme (ServerBindingReconciler c l s r) = s"

fun reconciler_Recorder :: "reconciler \<Rightarrow> EventRecorder option" where
  "reconciler_Recorder (MetalClusterReconciler c l s) = None"
| "reconciler_Recorder (MetalMachineReconciler c l s r) = Some r"
| "reconciler_Recorder (ServerBindingReconciler c l s r) = Some r"

subsection \<open>Sample environments\<close>

text \<open>A cluster where every call succeeds, the debug listener keeps serving and
  \<^verbatim>\<open>mgr.Start\<close> returns nil after the signal; and variations of it where one call
  fails.\<close>

definition env_ok :: env where
  "env_ok =
     \<lparr>ctrl_GetConfig = Inr (RestConfig 0),
      ctrl_NewManager =
        (\<lambda>rc opts. Inr \<lparr>GetClient = Client 0, GetScheme = Scheme opts, GetConfig = rc\<rparr>),
      kubernetes_NewForConfig = (\<lambda>rc. Inr (Clientset 0)),
      SetupWithManager = (\<lambda>r mgr opts. None),
      SetupWebhookWithManager = (\<lambda>k mgr. None),
      mgr_Start = (\<lambda>mgr. Returns None),
      debug_ListenAndServe = None\<rparr>"

definition env_no_manager :: env where
  "env_no_manager = env_ok\<lparr>ctrl_NewManager := (\<lambda>rc opts. Inl ''connection refused'')\<rparr>"

definition env_machine_fails :: env where
  "env_machine_fails =
     env_ok\<lparr>SetupWithManager := (\<lambda>r mgr opts.
        if reconciles r = MetalMachine then Some ''no matches for kind'' else None)\<rparr>"

definition env_template_fails :: env where
  "env_template_fails =
     env_ok\<lparr>SetupWebhookWithManager := (\<lambda>k mgr.
        if k = MetalMachineTemplate then Some ''no matches for kind'' else None)\<rparr>"

definition env_debug_in_use :: env where
  "env_debug_in_use =
     env_ok\<lparr>debug_ListenAndServe := Some (0, ''address already in use'')\<rparr>"

text \<open>What \<open>env_ok\<close> hands out when no flag is given: the manager, the recorder made
  from the second broadcaster, and the reconciler literal for MetalMachine.\<close>

definition mgr_ok :: Manager where
  "mgr_ok = \<lparr>GetClient = Client 0, GetScheme = scheme, GetConfig = RestConfig 0\<rparr>"

definition recorder_ok :: EventRecorder where
  "recorder_ok =
     \<lparr>recorder_broadcaster = 1, recorder_scheme = scheme,
      recorder_source = \<lparr>Component = ''caps-controller-manager''\<rparr>\<rparr>"

definition machine_reconciler_ok :: reconciler where
  "machine_reconciler_ok =
     MetalMachineReconciler (Client 0) [''controllers'', ''MetalMachine''] scheme recorder_ok"

section \<open>The shape of a run\<close>

text \<open>Each part of \<^verbatim>\<open>main\<close> appends its calls to the trace; the lemmas below list the
  outcomes of each part, and then of the whole of \<^verbatim>\<open>main\<close>, one case per path through
  the program.\<close>

lemmas effect_defs = NewBroadcasterWithCorrelatorOptions_def NewBroadcaster_def
  StartRecordingToSink_def NewRecorder_def emit_def os_Exit_def setupLog_Info_def
  setupLog_Error_def

lemma start_manager_cases [case_names blocks stopped failed]:
  obtains
    (blocks) "mgr_Start e mgr = Blocks"
      "start_manager e mgr w =
         w\<lparr>trace := trace w @ [EvInfo setupLog ''starting manager'', EvStart]\<rparr>"
  | (stopped) "mgr_Start e mgr = Returns None"
      "start_manager e mgr w =
         w\<lparr>trace := trace w @ [EvInfo setupLog ''starting manager'', EvStart, EvExit 0]\<rparr>"
  | (failed) err where "mgr_Start e mgr = Returns (Some err)"
      "start_manager e mgr w =
         w\<lparr>trace := trace w @ [EvInfo setupLog ''starting manager'', EvStart,
            EvError setupLog err ''problem running manager'' [], EvExit 1]\<rparr>"
proof (cases "mgr_Start e mgr")
  case Blocks
  then show ?thesis by (intro blocks) (simp_all add: start_manager_def effect_defs Let_def)
next
  case (Returns r)
  show ?thesis
  proof (cases r)
    case None
    with Returns show ?thesis by (intro stopped) (simp_all add: start_manager_def effect_defs Let_def)
  next
    case (Some err)
    with Returns show ?thesis by (intro failed) (simp_all add: start_manager_def effect_defs Let_def)
  qed
qed

lemma setup_reconcilers_cases [case_names failed1 failed2 failed3 registered]:
  fixes mgr :: Manager and recorder :: EventRecorder
  defines "r1 \<equiv> MetalClusterReconciler (GetClient mgr) [''controllers'', ''MetalCluster''] (GetScheme mgr)"
    and "r2 \<equiv> MetalMachineReconciler (GetClient mgr) [''controllers'', ''MetalMachine''] (GetScheme mgr) recorder"
    and "r3 \<equiv> ServerBindingReconciler (GetClient mgr) [''controllers'', ''ServerBinding''] (GetScheme mgr) recorder"
    and "ten \<equiv> \<lparr>MaxConcurrentReconciles = 10\<rparr>"
  obtains
    (failed1) err where
      "setup_reconcilers e mgr recorder w =
         Inl (w\<lparr>trace := trace w @ [EvSetupWithManager r1 ten (Some err),
            EvError setupLog err ''unable to create controller'' [(''controller'', ''MetalCluster'')],
            EvExit 1]\<rparr>)"
  | (failed2) err where
      "setup_reconcilers e mgr recorder w =
         Inl (w\<lparr>trace := trace w @ [EvSetupWithManager r1 ten None,
            EvSetupWithManager r2 ten (Some err),
            EvError setupLog err ''unable to create controller'' [(''controller'', ''MetalMachine'')],
            EvExit 1]\<rparr>)"
  | (failed3) err where
      "setup_reconcilers e mgr recorder w =
         Inl (w\<lparr>trace := trace w @ [EvSetupWithManager r1 ten None,
            EvSetupWithManager r2 ten None, EvSetupWithManager r3 ten (Some err),
            EvError setupLog err ''unable to create controller'' [(''controller'', ''ServerBinding'')],
            EvExit 1]\<rparr>)"
  | (registered)
      "setup_reconcilers e mgr recorder w =
         Inr (w\<lparr>trace := trace w @ [EvSetupWithManager r1 ten None,
            EvSetupWithManager r2 ten None, EvSetupWithManager r3 ten None]\<rparr>)"
proof (cases "SetupWithManager e r1 mgr ten")
  case (Some err)
  then show ?thesis
    by (intro failed1 [of err]) (simp add: setup_reconcilers_def effect_defs Let_def r1_def ten_def)
next
  case n1: None
  show ?thesis
  proof (cases "SetupWithManager e r2 mgr ten")
    case (Some err)
    with n1 show ?thesis
      by (intro failed2 [of err])
        (simp add: setup_reconcilers_def effect_defs Let_def r1_def r2_def ten_def)
  next
    case n2: None
    show ?thesis
    proof (cases "SetupWithManager e r3 mgr ten")
      case (Some err)
      with n1 n2 show ?thesis
        by (intro failed3 [of err])
          (simp add: setup_reconcilers_def effect_defs Let_def r1_def r2_def r3_def ten_def)
    next
      case None
      with n1 n2 show ?thesis
        by (intro registered)
          (simp add: setup_reconcilers_def effect_defs Let_def r1_def r2_def r3_def ten_def)
    qed
  qed
qed


lemma setup_webhooks_cases [case_names failed1 failed2 failed3 failed4 registered]:
  obtains
    (failed1) err where
      "setup_webhooks e mgr w =
         Inl (w\<lparr>trace := trace w @ [EvSetupWebhookWithManager MetalCluster (Some err),
            EvError setupLog err ''unable to create webhook'' [(''webhook'', ''MetalCluster'')],
            EvExit 1]\<rparr>)"
  | (failed2) err where
      "setup_webhooks e mgr w =
         Inl (w\<lparr>trace := trace w @ [EvSetupWebhookWithManager MetalCluster None,
            EvSetupWebhookWithManager MetalMachine (Some err),
            EvError setupLog err ''unable to create webhook'' [(''webhook'', ''MetalMachine'')],
            EvExit 1]\<rparr>)"
  | (failed3) err where
      "setup_webhooks e mgr w =
         Inl (w\<lparr>trace := trace w @ [EvSetupWebhookWithManager MetalCluster None,
            EvSetupWebhookWithManager MetalMachine None,
            EvSetupWebhookWithManager MetalMachineTemplate (Some err),
            EvError setupLog err ''unable to create webhook''
              [(''webhook'', ''MetalMachineTemplate'')],
            EvExit 1]\<rparr>)"
  | (failed4) err where
      "setup_webhooks e mgr w =
         Inl (w\<lparr>trace := trace w @ [EvSetupWebhookWithManager MetalCluster None,
            EvSetupWebhookWithManager MetalMachine None,
            EvSetupWebhookWithManager MetalMachineTemplate None,
            EvSetupWebhookWithManager ServerBinding (Some err),
            EvError setupLog err ''unable to create webhook'' [(''webhook'', ''ServerBinding'')],
            EvExit 1]\<rparr>)"
  | (registered)
      "setup_webhooks e mgr w =
         Inr (w\<lparr>trace := trace w @ [EvSetupWebhookWithManager MetalCluster None,
            EvSetupWebhookWithManager MetalMachine None,
            EvSetupWebhookWithManager MetalMachineTemplate None,
            EvSetupWebhookWithManager ServerBinding None]\<rparr>)"
proof (cases "SetupWebhookWithManager e MetalCluster mgr")
  case (Some err)
  then show ?thesis
    by (intro failed1 [of err]) (simp add: setup_webhooks_def effect_defs Let_def)
next
  case n1: None
  show ?thesis
  proof (cases "SetupWebhookWithManager e MetalMachine mgr")
    case (Some err)
    with n1 show ?thesis
      by (intro failed2 [of err]) (simp add: setup_webhooks_def effect_defs Let_def)
  next
    case n2: None
    show ?thesis
    proof (cases "SetupWebhookWithManager e MetalMachineTemplate mgr")
      case (Some err)
      with n1 n2 show ?thesis
        by (intro failed3 [of err]) (simp add: setup_webhooks_def effect_defs Let_def)
    next
      case n3: None
      show ?thesis
      proof (cases "SetupWebhookWithManager e ServerBinding mgr")
        case (Some err)
        with n1 n2 n3 show ?thesis
          by (intro failed4 [of err]) (simp add: setup_webhooks_def effect_defs Let_def)
      next
        case None
        with n1 n2 n3 show ?thesis
          by (intro registered) (simp add: setup_webhooks_def effect_defs Let_def)
      qed
    qed
  qed
qed

lemma main_cases
  [case_names no_config no_manager no_client
     reconciler1 reconciler2 reconciler3 reconciling
     webhook1 webhook2 webhook3 webhook4 admitting]:
  fixes args :: "flag_arg list" and e :: env
  defines "b100 \<equiv> Some \<lparr>BurstSize = 100\<rparr>"
    and "opts \<equiv> manager_options (flag_Parse args) 0"
    and "ten \<equiv> \<lparr>MaxConcurrentReconciles = 10\<rparr>"
  defines "recorder \<equiv> \<lambda>mgr. \<lparr>recorder_broadcaster = 1, recorder_scheme = GetScheme mgr,
      recorder_source = \<lparr>Component = ''caps-controller-manager''\<rparr>\<rparr>"
  defines "r1 \<equiv> \<lambda>mgr. MetalClusterReconciler (GetClient mgr)
      [''controllers'', ''MetalCluster''] (GetScheme mgr)"
    and "r2 \<equiv> \<lambda>mgr. MetalMachineReconciler (GetClient mgr)
      [''controllers'', ''MetalMachine''] (GetScheme mgr) (recorder mgr)"
    and "r3 \<equiv> \<lambda>mgr. ServerBindingReconciler (GetClient mgr)
      [''controllers'', ''ServerBinding''] (GetScheme mgr) (recorder mgr)"
    and "wired \<equiv> \<lambda>rc mgr cs. [EvSetLogger True, EvGo debugAddr, EvNewBroadcaster 0 b100,
      EvGetConfigOrDie (Some rc), EvNewManager opts (Inr mgr),
      EvNewForConfig (GetConfig mgr) (Inr cs), EvNewBroadcaster 1 None,
      EvStartRecordingToSink 1 (EventSinkImpl cs []), EvNewRecorder (recorder mgr)]"
    and "run \<equiv> \<lambda>rest. rest = [] \<or> rest = [EvExit 0]
      \<or> (\<exists>err. rest = [EvError setupLog err ''problem running manager'' [], EvExit 1])"
  obtains
    (no_config)
      "main args e = \<lparr>broadcasters = [b100], trace =
         [EvSetLogger True, EvGo debugAddr, EvNewBroadcaster 0 b100,
          EvGetConfigOrDie None, EvExit 1]\<rparr>"
  | (no_manager) rc err where
      "main args e = \<lparr>broadcasters = [b100], trace =
         [EvSetLogger True, EvGo debugAddr, EvNewBroadcaster 0 b100,
          EvGetConfigOrDie (Some rc), EvNewManager opts (Inl err),
          EvError setupLog err ''unable to start manager'' [], EvExit 1]\<rparr>"
  | (no_client) rc mgr err where
      "main args e = \<lparr>broadcasters = [b100], trace =
         [EvSetLogger True, EvGo debugAddr, EvNewBroadcaster 0 b100,
          EvGetConfigOrDie (Some rc), EvNewManager opts (Inr mgr),
          EvNewForConfig (GetConfig mgr) (Inl err),
          EvError setupLog err ''unable to create k8s client'' [], EvExit 1]\<rparr>"
  | (reconciler1) rc mgr cs err where "webhookPort (flag_Parse args) = 0"
      "main args e = \<lparr>broadcasters = [b100, None], trace = wired rc mgr cs @
         [EvSetupWithManager (r1 mgr) ten (Some err),
          EvError setupLog err ''unable to create controller''
            [(''controller'', ''MetalCluster'')],
          EvExit 1]\<rparr>"
  | (reconciler2) rc mgr cs err where "webhookPort (flag_Parse args) = 0"
      "main args e = \<lparr>broadcasters = [b100, None], trace = wired rc mgr cs @
         [EvSetupWithManager (r1 mgr) ten None,
          EvSetupWithManager (r2 mgr) ten (Some err),
          EvError setupLog err ''unable to create controller''
            [(''controller'', ''MetalMachine'')],
          EvExit 1]\<rparr>"
  | (reconciler3) rc mgr cs err where "webhookPort (flag_Parse args) = 0"
      "main args e = \<lparr>broadcasters = [b100, None], trace = wired rc mgr cs @
         [EvSetupWithManager (r1 mgr) ten None,
          EvSetupWithManager (r2 mgr) ten None,
          EvSetupWithManager (r3 mgr) ten (Some err),
          EvError setupLog err ''unable to create controller''
            [(''controller'', ''ServerBinding'')],
          EvExit 1]\<rparr>"
  | (reconciling) rc mgr cs rest where "webhookPort (flag_Parse args) = 0" "run rest"
      "main args e = \<lparr>broadcasters = [b100, None], trace = wired rc mgr cs @
         [EvSetupWithManager (r1 mgr) ten None,
          EvSetupWithManager (r2 mgr) ten None,
          EvSetupWithManager (r3 mgr) ten None,
          EvInfo setupLog ''starting manager'', EvStart] @ rest\<rparr>"
  | (webhook1) rc mgr cs err where "webhookPort (flag_Parse args) \<noteq> 0"
      "main args e = \<lparr>broadcasters = [b100, None], trace = wired rc mgr cs @
         [EvSetupWebhookWithManager MetalCluster (Some err),
          EvError setupLog err ''unable to create webhook'' [(''webhook'', ''MetalCluster'')],
          EvExit 1]\<rparr>"
  | (webhook2) rc mgr cs err where "webhookPort (flag_Parse args) \<noteq> 0"
      "main args e = \<lparr>broadcasters = [b100, None], trace = wired rc mgr cs @
         [EvSetupWebhookWithManager MetalCluster None,
          EvSetupWebhookWithManager MetalMachine (Some err),
          EvError setupLog err ''unable to create webhook'' [(''webhook'', ''MetalMachine'')],
          EvExit 1]\<rparr>"
  | (webhook3) rc mgr cs err where "webhookPort (flag_Parse args) \<noteq> 0"
      "main args e = \<lparr>broadcasters = [b100, None], trace = wired rc mgr cs @
         [EvSetupWebhookWithManager MetalCluster None,
          EvSetupWebhookWithManager MetalMachine None,
          EvSetupWebhookWithManager MetalMachineTemplate (Some err),
          EvError setupLog err ''unable to create webhook''
            [(''webhook'', ''MetalMachineTemplate'')],
          EvExit 1]\<rparr>"
  | (webhook4) rc mgr cs err where "webhookPort (flag_Parse args) \<noteq> 0"
      "main args e = \<lparr>broadcasters = [b100, None], trace = wired rc mgr cs @
         [EvSetupWebhookWithManager MetalCluster None,
          EvSetupWebhookWithManager MetalMachine None,
          EvSetupWebhookWithManager MetalMachineTemplate None,
          EvSetupWebhookWithManager ServerBinding (Some err),
          EvError setupLog err ''unable to create webhook'' [(''webhook'', ''ServerBinding'')],
          EvExit 1]\<rparr>"
  | (admitting) rc mgr cs rest where "webhookPort (flag_Parse args) \<noteq> 0" "run rest"
      "main args e = \<lparr>broadcasters = [b100, None], trace = wired rc mgr cs @
         [EvSetupWebhookWithManager MetalCluster None,
          EvSetupWebhookWithManager MetalMachine None,
          EvSetupWebhookWithManager MetalMachineTemplate None,
          EvSetupWebhookWithManager ServerBinding None,
          EvInfo setupLog ''starting manager'', EvStart] @ rest\<rparr>"
proof (cases "ctrl_GetConfig e")
  case (Inl err)
  then show ?thesis
    by (intro no_config)
      (simp add: main_def main_body_def startup_def effect_defs Let_def b100_def)
next
  case config: (Inr rc)
  show ?thesis
  proof (cases "ctrl_NewManager e rc opts")
    case (Inl err)
    with config show ?thesis
      by (intro no_manager [of rc err])
        (simp add: main_def main_body_def startup_def effect_defs Let_def b100_def opts_def)
  next
    case manager: (Inr mgr)
    show ?thesis
    proof (cases "kubernetes_NewForConfig e (GetConfig mgr)")
      case (Inl err)
      with config manager show ?thesis
        by (intro no_client [of rc mgr err])
          (simp add: main_def main_body_def main_with_manager_def startup_def effect_defs
            Let_def b100_def opts_def)
    next
      case client: (Inr cs)
      define w where "w = \<lparr>broadcasters = [b100, None], trace = wired rc mgr cs\<rparr>"
      have main_eq: "main args e =
          (case (if webhookPort (flag_Parse args) = 0
                 then setup_reconcilers e mgr (recorder mgr) w
                 else setup_webhooks e mgr w) of
             Inl w' \<Rightarrow> w'
           | Inr w' \<Rightarrow> start_manager e mgr w')"
        using config manager client
        by (simp add: main_def main_body_def main_with_manager_def startup_def effect_defs
            Let_def b100_def opts_def w_def wired_def recorder_def)
      have started: thesis
        if port: "webhookPort (flag_Parse args) = 0 \<and> evs = [EvSetupWithManager (r1 mgr) ten None,
              EvSetupWithManager (r2 mgr) ten None, EvSetupWithManager (r3 mgr) ten None]
            \<or> webhookPort (flag_Parse args) \<noteq> 0 \<and> evs = [EvSetupWebhookWithManager MetalCluster None,
              EvSetupWebhookWithManager MetalMachine None,
              EvSetupWebhookWithManager MetalMachineTemplate None,
              EvSetupWebhookWithManager ServerBinding None]"
          and eq: "main args e = start_manager e mgr (w\<lparr>trace := trace w @ evs\<rparr>)"
        for evs
      proof -
        obtain rest where rest: "run rest"
          "main args e = \<lparr>broadcasters = [b100, None], trace =
             wired rc mgr cs @ evs @ [EvInfo setupLog ''starting manager'', EvStart] @ rest\<rparr>"
          by (cases rule: start_manager_cases [of e mgr "w\<lparr>trace := trace w @ evs\<rparr>"])
            (auto simp: eq w_def run_def)
        from port show thesis
        proof (elim disjE conjE)
          assume "webhookPort (flag_Parse args) = 0" and "evs = [EvSetupWithManager (r1 mgr) ten None,
              EvSetupWithManager (r2 mgr) ten None, EvSetupWithManager (r3 mgr) ten None]"
          with rest show thesis by (intro reconciling [of rest rc mgr cs]) simp_all
        next
          assume "webhookPort (flag_Parse args) \<noteq> 0" and "evs = [EvSetupWebhookWithManager MetalCluster None,
              EvSetupWebhookWithManager MetalMachine None,
              EvSetupWebhookWithManager MetalMachineTemplate None,
              EvSetupWebhookWithManager ServerBinding None]"
          with rest show thesis by (intro admitting [of rest rc mgr cs]) simp_all
        qed
      qed
      show ?thesis
      proof (cases "webhookPort (flag_Parse args) = 0")
        case True
        show ?thesis
        proof (cases rule: setup_reconcilers_cases [of e mgr "recorder mgr" w])
          case (failed1 err)
          with True show ?thesis
            by (intro reconciler1 [of rc mgr cs err])
              (simp_all add: main_eq w_def r1_def ten_def)
        next
          case (failed2 err)
          with True show ?thesis
            by (intro reconciler2 [of rc mgr cs err])
              (simp_all add: main_eq w_def r1_def r2_def ten_def)
        next
          case (failed3 err)
          with True show ?thesis
            by (intro reconciler3 [of rc mgr cs err])
              (simp_all add: main_eq w_def r1_def r2_def r3_def ten_def)
        next
          case registered
          with True show ?thesis
            by (intro started) (simp_all add: main_eq r1_def r2_def r3_def ten_def)
        qed
      next
        case False
        show ?thesis
        proof (cases rule: setup_webhooks_cases [of e mgr w])
          case (failed1 err)
          with False show ?thesis
            by (intro webhook1 [of rc mgr cs err]) (simp_all add: main_eq w_def)
        next
          case (failed2 err)
          with False show ?thesis
            by (intro webhook2 [of rc mgr cs err]) (simp_all add: main_eq w_def)
        next
          case (failed3 err)
          with False show ?thesis
            by (intro webhook3 [of rc mgr cs err]) (simp_all add: main_eq w_def)
        next
          case (failed4 err)
          with False show ?thesis
            by (intro webhook4 [of rc mgr cs err]) (simp_all add: main_eq w_def)
        next
          case registered
          with False show ?thesis
            by (intro started) (simp_all add: main_eq)
        qed
      qed
    qed
  qed
qed

lemmas main_defs = main_def main_body_def main_with_manager_def start_manager_def
  setup_reconcilers_def setup_webhooks_def startup_def manager_options_def
  flag_Parse_def flag_defaults_def effect_defs Let_def

lemmas observer_defs = registered_reconcilers_def registered_webhooks_def
  reconciler_setups_def webhook_setups_def exit_status_def

text \<open>The main goroutine ends the process with status 0 or 1, and an exit is the last
  event of a trace.\<close>

lemma main_exit_status:
  assumes "list_ex is_exit (trace (main args e))"
  shows "exit_status (trace (main args e)) = Some 0
    \<or> exit_status (trace (main args e)) = Some 1"
  using assms by (cases rule: main_cases [of args e]) (auto simp: observer_defs)

lemma list_ex_take: "list_ex P (take n xs) \<Longrightarrow> list_ex P xs"
  by (auto simp: list_ex_iff dest: in_set_takeD)

lemma exit_status_append_exit: "exit_status (xs @ [y, EvExit n]) = Some n"
  by (simp add: exit_status_def)

lemma process_while_listener_serves:
  "debug_ListenAndServe e = None \<Longrightarrow> process args e = trace (main args e)"
  by (simp add: process_def)

text \<open>The process runs the main goroutine to its end, or the listener cuts it short while
  it is alive. What the main goroutine never does, the process never does; and when the
  main goroutine ends the process with status 1, so does every process.\<close>

lemma process_cases [case_names uncut cut]:
  obtains
    (uncut) "process args e = trace (main args e)"
  | (cut) k err where "debug_ListenAndServe e = Some (k, err)"
      "\<not> list_ex is_exit (main_until k args e)"
      "process args e = main_until k args e @ debug_sidecar err"
proof (cases "debug_ListenAndServe e")
  case None
  then show ?thesis by (intro uncut) (simp add: process_def)
next
  case (Some p)
  obtain k err where p: "p = (k, err)" by (cases p)
  show ?thesis
  proof (cases "list_ex is_exit (main_until k args e)")
    case True
    with Some p show ?thesis by (intro uncut) (simp add: process_def)
  next
    case False
    with Some p show ?thesis by (intro cut [of k err]) (simp_all add: process_def)
  qed
qed

lemma reconciler_setups_take:
  "reconciler_setups t = [] \<Longrightarrow> reconciler_setups (take n t) = []"
  by (auto simp: reconciler_setups_def dest: in_set_takeD)

lemma webhook_setups_take:
  "webhook_setups t = [] \<Longrightarrow> webhook_setups (take n t) = []"
  by (auto simp: webhook_setups_def dest: in_set_takeD)

lemma process_exits_1:
  assumes "exit_status (trace (main args e)) = Some 1"
  shows "exit_status (process args e) = Some 1"
  by (cases rule: process_cases [of args e])
    (simp_all add: assms debug_sidecar_def exit_status_append_exit)

lemma process_not_started:
  assumes "EvStart \<notin> set (trace (main args e))"
  shows "EvStart \<notin> set (process args e)"
  using assms
  by (cases rule: process_cases [of args e])
    (auto simp: debug_sidecar_def main_until_def dest: in_set_takeD)

lemma process_no_reconciler_setups:
  assumes "reconciler_setups (trace (main args e)) = []"
  shows "reconciler_setups (process args e) = []"
proof (cases rule: process_cases [of args e])
  case uncut
  with assms show ?thesis by simp
next
  case (cut k err)
  from assms have "reconciler_setups (main_until k args e) = []"
    unfolding main_until_def by (rule reconciler_setups_take)
  with cut show ?thesis by (simp add: reconciler_setups_def debug_sidecar_def)
qed

lemma process_no_webhook_setups:
  assumes "webhook_setups (trace (main args e)) = []"
  shows "webhook_setups (process args e) = []"
proof (cases rule: process_cases [of args e])
  case uncut
  with assms show ?thesis by simp
next
  case (cut k err)
  from assms have "webhook_setups (main_until k args e) = []"
    unfolding main_until_def by (rule webhook_setups_take)
  with cut show ?thesis by (simp add: webhook_setups_def debug_sidecar_def)
qed



section \<open>Properties\<close>

text \<open>
  The properties C1 to C8 and C10 are about the main goroutine, the function
  \<^verbatim>\<open>main\<close>; by \<open>process_while_listener_serves\<close> its trace is the trace of the process
  as long as the debug listener keeps serving. Where a property is about how the process
  ends, or about what it never does, it is stated for \<open>process\<close> as well, whatever the
  listener does. C9 is about the listener.
\<close>




text \<open>
  C2. Every call of a reconciler's \<^verbatim>\<open>SetupWithManager\<close>, and so every registered
  reconciler, is given \<^verbatim>\<open>MaxConcurrentReconciles\<close> 10, whatever the flags and the cluster;
  with webhook port 0, once the manager starts, the bounds of the three registered
  reconcilers are 10, 10 and 10.
\<close>

theorem reconcilers_bounded_by_ten:
  "(\<forall>(r, opts, res) \<in> set (reconciler_setups (trace (main args e))).
      MaxConcurrentReconciles opts = 10)
   \<and> (\<forall>(r, opts) \<in> set (registered_reconcilers (trace (main args e))).
      MaxConcurrentReconciles opts = 10)
   \<and> (webhookPort (flag_Parse args) = 0 \<and> EvStart \<in> set (trace (main args e)) \<longrightarrow>
      map (MaxConcurrentReconciles \<circ> snd) (registered_reconcilers (trace (main args e))) =
        [10, 10, 10])"
  by (cases rule: main_cases [of args e]) (auto simp: observer_defs)

theorem reconcilers_bounded_by_ten_witness:
  "webhookPort (flag_Parse []) = 0 \<and> EvStart \<in> set (trace (main [] env_ok))
   \<and> map (MaxConcurrentReconciles \<circ> snd) (registered_reconcilers (trace (main [] env_ok))) =
        [10, 10, 10]"
proof -
  have h: "webhookPort (flag_Parse []) = 0 \<and> EvStart \<in> set (trace (main [] env_ok))"
    by (simp add: main_defs env_ok_def)
  with reconcilers_bounded_by_ten [of "[]" env_ok] show ?thesis by blast
qed

text \<open>
  C3. Whatever the flags and the cluster, the program builds its broadcaster with
  correlator options, the first one it allocates, with burst size 100; no broadcaster is
  built with correlator options of another burst size; and the broadcaster in the options of
  every call of \<^verbatim>\<open>ctrl.NewManager\<close> is one with burst size 100.
\<close>

theorem burst_size_is_100:
  "EvNewBroadcaster 0 (Some \<lparr>BurstSize = 100\<rparr>) \<in> set (trace (main args e))
   \<and> (\<forall>b opts. EvNewBroadcaster b (Some opts) \<in> set (trace (main args e)) \<longrightarrow>
         BurstSize opts = 100)
   \<and> (\<forall>opts res. EvNewManager opts res \<in> set (trace (main args e)) \<longrightarrow>
         EventBroadcaster opts < length (broadcasters (main args e)) \<and>
         map_option BurstSize (broadcasters (main args e) ! EventBroadcaster opts) = Some 100)"
  by (cases rule: main_cases [of args e]) (auto simp: manager_options_def)

text \<open>With all three flags set, on a cluster that refuses the manager.\<close>

theorem burst_size_is_100_witness:
  "EvNewManager
      (manager_options
        (flag_Parse [metrics_addr '':9090'', enable_leader_election False, webhook_port 9443]) 0)
      (Inl ''connection refused'')
     \<in> set (trace (main [metrics_addr '':9090'', enable_leader_election False,
               webhook_port 9443] env_no_manager))
   \<and> map_option BurstSize
       (broadcasters (main [metrics_addr '':9090'', enable_leader_election False,
          webhook_port 9443] env_no_manager) ! 0)
       = Some 100"
proof -
  have h: "EvNewManager
      (manager_options
        (flag_Parse [metrics_addr '':9090'', enable_leader_election False, webhook_port 9443]) 0)
      (Inl ''connection refused'')
     \<in> set (trace (main [metrics_addr '':9090'', enable_leader_election False,
               webhook_port 9443] env_no_manager))"
    by (simp add: main_defs env_no_manager_def env_ok_def)
  with burst_size_is_100
    [of "[metrics_addr '':9090'', enable_leader_election False, webhook_port 9443]"
      env_no_manager]
  show ?thesis by (auto simp: manager_options_def)
qed

text \<open>
  C4 (amended). Every reconciler whose setup \<^verbatim>\<open>main\<close> calls holds the client and the
  scheme of the manager that \<^verbatim>\<open>ctrl.NewManager\<close> returned. The MetalMachine and the
  ServerBinding reconciler hold the event recorder the program made, whose scheme is the
  manager's; the MetalCluster reconciler is given no recorder.
\<close>

theorem reconcilers_bound_to_manager:
  assumes "(r, ropts, res) \<in> set (reconciler_setups (trace (main args e)))"
  shows "\<exists>opts mgr. EvNewManager opts (Inr mgr) \<in> set (trace (main args e)) \<and>
      reconciler_Client r = GetClient mgr \<and>
      reconciler_Scheme r = GetScheme mgr \<and>
      (reconciles r = MetalCluster \<longrightarrow> reconciler_Recorder r = None) \<and>
      (reconciles r \<noteq> MetalCluster \<longrightarrow>
         (\<exists>recorder. reconciler_Recorder r = Some recorder \<and>
            EvNewRecorder recorder \<in> set (trace (main args e)) \<and>
            recorder_scheme recorder = GetScheme mgr))"
  using assms by (cases rule: main_cases [of args e]) (auto simp: observer_defs)

theorem reconcilers_bound_to_manager_witness:
  "(machine_reconciler_ok, \<lparr>MaxConcurrentReconciles = 10\<rparr>, None)
     \<in> set (reconciler_setups (trace (main [] env_ok)))
   \<and> (\<exists>opts mgr. EvNewManager opts (Inr mgr) \<in> set (trace (main [] env_ok)) \<and>
        reconciler_Client machine_reconciler_ok = GetClient mgr \<and>
        reconciler_Scheme machine_reconciler_ok = GetScheme mgr \<and>
        (\<exists>recorder. reconciler_Recorder machine_reconciler_ok = Some recorder \<and>
            EvNewRecorder recorder \<in> set (trace (main [] env_ok)) \<and>
            recorder_scheme recorder = GetScheme mgr))"
proof -
  have h: "(machine_reconciler_ok, \<lparr>MaxConcurrentReconciles = 10\<rparr>, None)
     \<in> set (reconciler_setups (trace (main [] env_ok)))"
    by (simp add: main_defs observer_defs env_ok_def machine_reconciler_ok_def recorder_ok_def)
  have k: "reconciles machine_reconciler_ok \<noteq> MetalCluster"
    by (simp add: machine_reconciler_ok_def)
  from reconcilers_bound_to_manager [OF h] k h show ?thesis by simp
qed

text \<open>On \<open>env_ok\<close> without flags the three reconcilers are registered, and the first of
  them, the MetalCluster reconciler, has no recorder.\<close>

theorem cluster_reconciler_without_recorder:
  "map (reconciles \<circ> fst) (registered_reconcilers (trace (main [] env_ok))) =
     [MetalCluster, MetalMachine, ServerBinding]
   \<and> map (reconciler_Recorder \<circ> fst) (registered_reconcilers (trace (main [] env_ok))) =
     [None, Some recorder_ok, Some recorder_ok]"
  by (simp add: main_defs observer_defs env_ok_def recorder_ok_def)

text \<open>
  C5. The leader election identity in the options of \<^verbatim>\<open>ctrl.NewManager\<close> is the
  constant \<^verbatim>\<open>controller-leader-election-capm\<close>: two runs, with any flags and on any
  cluster, pass the same identity.
\<close>

theorem lease_identity_is_fixed:
  "EvNewManager opts res \<in> set (trace (main args e)) \<Longrightarrow>
   EvNewManager opts' res' \<in> set (trace (main args' e')) \<Longrightarrow>
   LeaderElectionID opts = ''controller-leader-election-capm''
   \<and> LeaderElectionID opts' = LeaderElectionID opts"
proof -
  have fixed: "LeaderElectionID o1 = ''controller-leader-election-capm''"
    if "EvNewManager o1 r1 \<in> set (trace (main a1 e1))" for o1 r1 a1 e1
    using that by (cases rule: main_cases [of a1 e1]) (auto simp: manager_options_def)
  assume "EvNewManager opts res \<in> set (trace (main args e))"
    and "EvNewManager opts' res' \<in> set (trace (main args' e'))"
  then show ?thesis by (simp add: fixed)
qed

text \<open>A run without flags on \<open>env_ok\<close> and a run with all three flags set on a cluster
  that refuses the manager.\<close>

theorem lease_identity_is_fixed_witness:
  "EvNewManager (manager_options (flag_Parse []) 0) (Inr mgr_ok) \<in> set (trace (main [] env_ok))
   \<and> EvNewManager
        (manager_options
          (flag_Parse [metrics_addr '':9090'', enable_leader_election False, webhook_port 9443]) 0)
        (Inl ''connection refused'')
       \<in> set (trace (main [metrics_addr '':9090'', enable_leader_election False,
                 webhook_port 9443] env_no_manager))
   \<and> LeaderElectionID (manager_options (flag_Parse []) 0) = ''controller-leader-election-capm''
   \<and> LeaderElectionID
        (manager_options
          (flag_Parse [metrics_addr '':9090'', enable_leader_election False, webhook_port 9443]) 0)
       = LeaderElectionID (manager_options (flag_Parse []) 0)"
proof -
  have a: "EvNewManager (manager_options (flag_Parse []) 0) (Inr mgr_ok)
      \<in> set (trace (main [] env_ok))"
    by (simp add: main_defs env_ok_def mgr_ok_def)
  have b: "EvNewManager
        (manager_options
          (flag_Parse [metrics_addr '':9090'', enable_leader_election False, webhook_port 9443]) 0)
        (Inl ''connection refused'')
       \<in> set (trace (main [metrics_addr '':9090'', enable_leader_election False,
                 webhook_port 9443] env_no_manager))"
    by (simp add: main_defs env_no_manager_def env_ok_def)
  from lease_identity_is_fixed [OF a b] a b show ?thesis by simp
qed

text \<open>
  C6. When the setup of a reconciler or of a webhook returns an error, the next two events
  are the last of the run: an error line of \<^verbatim>\<open>setupLog\<close> with that error and the name
  of that controller or webhook, and the exit with status 1. So no other setup is called
  after the failure and the manager is not started. The process, too, ends with status 1
  and without a start of the manager, whatever the debug listener does.
\<close>

theorem registration_failure_is_fatal:
  "(EvSetupWithManager r opts (Some err) \<in> set (trace (main args e)) \<longrightarrow>
      suffix [EvSetupWithManager r opts (Some err),
              EvError setupLog err ''unable to create controller''
                [(''controller'', kind_name (reconciles r))],
              EvExit 1]
        (trace (main args e))
      \<and> exit_status (trace (main args e)) = Some 1
      \<and> EvStart \<notin> set (trace (main args e))
      \<and> exit_status (process args e) = Some 1
      \<and> EvStart \<notin> set (process args e))
   \<and> (EvSetupWebhookWithManager k (Some err) \<in> set (trace (main args e)) \<longrightarrow>
      suffix [EvSetupWebhookWithManager k (Some err),
              EvError setupLog err ''unable to create webhook'' [(''webhook'', kind_name k)],
              EvExit 1]
        (trace (main args e))
      \<and> exit_status (trace (main args e)) = Some 1
      \<and> EvStart \<notin> set (trace (main args e))
      \<and> exit_status (process args e) = Some 1
      \<and> EvStart \<notin> set (process args e))"
proof -
  have "(EvSetupWithManager r opts (Some err) \<in> set (trace (main args e)) \<longrightarrow>
      suffix [EvSetupWithManager r opts (Some err),
              EvError setupLog err ''unable to create controller''
                [(''controller'', kind_name (reconciles r))],
              EvExit 1]
        (trace (main args e))
      \<and> exit_status (trace (main args e)) = Some 1
      \<and> EvStart \<notin> set (trace (main args e)))
   \<and> (EvSetupWebhookWithManager k (Some err) \<in> set (trace (main args e)) \<longrightarrow>
      suffix [EvSetupWebhookWithManager k (Some err),
              EvError setupLog err ''unable to create webhook'' [(''webhook'', kind_name k)],
              EvExit 1]
        (trace (main args e))
      \<and> exit_status (trace (main args e)) = Some 1
      \<and> EvStart \<notin> set (trace (main args e)))"
    by (cases rule: main_cases [of args e]) (auto simp: observer_defs suffix_Cons)
  then show ?thesis
    by (simp add: process_exits_1 process_not_started)
qed

text \<open>The MetalMachine reconciler fails without flags; the MetalMachineTemplate webhook
  fails with \<^verbatim>\<open>webhook-port=9443\<close>.\<close>

theorem registration_failure_is_fatal_witness:
  "EvSetupWithManager machine_reconciler_ok \<lparr>MaxConcurrentReconciles = 10\<rparr>
       (Some ''no matches for kind'')
     \<in> set (trace (main [] env_machine_fails))
   \<and> suffix [EvSetupWithManager machine_reconciler_ok \<lparr>MaxConcurrentReconciles = 10\<rparr>
              (Some ''no matches for kind''),
            EvError setupLog ''no matches for kind'' ''unable to create controller''
              [(''controller'', ''MetalMachine'')],
            EvExit 1]
       (trace (main [] env_machine_fails))
   \<and> EvStart \<notin> set (trace (main [] env_machine_fails))
   \<and> EvSetupWebhookWithManager MetalMachineTemplate (Some ''no matches for kind'')
     \<in> set (trace (main [webhook_port 9443] env_template_fails))
   \<and> suffix [EvSetupWebhookWithManager MetalMachineTemplate (Some ''no matches for kind''),
            EvError setupLog ''no matches for kind'' ''unable to create webhook''
              [(''webhook'', ''MetalMachineTemplate'')],
            EvExit 1]
       (trace (main [webhook_port 9443] env_template_fails))
   \<and> EvStart \<notin> set (trace (main [webhook_port 9443] env_template_fails))"
proof -
  have r: "EvSetupWithManager machine_reconciler_ok \<lparr>MaxConcurrentReconciles = 10\<rparr>
       (Some ''no matches for kind'')
     \<in> set (trace (main [] env_machine_fails))"
    by (simp add: main_defs env_machine_fails_def env_ok_def machine_reconciler_ok_def
        recorder_ok_def)
  have w: "EvSetupWebhookWithManager MetalMachineTemplate (Some ''no matches for kind'')
     \<in> set (trace (main [webhook_port 9443] env_template_fails))"
    by (simp add: main_defs env_template_fails_def env_ok_def)
  from r w
    registration_failure_is_fatal
      [of machine_reconciler_ok "\<lparr>MaxConcurrentReconciles = 10\<rparr>" "''no matches for kind''"
        "[]" env_machine_fails]
    registration_failure_is_fatal
      [of _ _ "''no matches for kind''" "[webhook_port 9443]" env_template_fails
        MetalMachineTemplate]
  show ?thesis by (simp add: machine_reconciler_ok_def)
qed

text \<open>
  C7. When \<^verbatim>\<open>ctrl.NewManager\<close> returns an error, the run ends right after it with the
  error line \<^verbatim>\<open>unable to start manager\<close> and the exit with status 1: the manager is
  not started, and no setup of a reconciler or of a webhook has been called. The same
  holds of the process, whatever the debug listener does.
\<close>

theorem construction_failure_is_fatal:
  assumes "EvNewManager opts (Inl err) \<in> set (trace (main args e))"
  shows "suffix [EvNewManager opts (Inl err),
                 EvError setupLog err ''unable to start manager'' [], EvExit 1]
           (trace (main args e))
         \<and> exit_status (trace (main args e)) = Some 1
         \<and> EvStart \<notin> set (trace (main args e))
         \<and> reconciler_setups (trace (main args e)) = []
         \<and> webhook_setups (trace (main args e)) = []
         \<and> exit_status (process args e) = Some 1
         \<and> EvStart \<notin> set (process args e)
         \<and> reconciler_setups (process args e) = []
         \<and> webhook_setups (process args e) = []"
proof -
  have "suffix [EvNewManager opts (Inl err),
                 EvError setupLog err ''unable to start manager'' [], EvExit 1]
           (trace (main args e))
         \<and> exit_status (trace (main args e)) = Some 1
         \<and> EvStart \<notin> set (trace (main args e))
         \<and> reconciler_setups (trace (main args e)) = []
         \<and> webhook_setups (trace (main args e)) = []"
    using assms
    by (cases rule: main_cases [of args e]) (auto simp: observer_defs suffix_Cons)
  then show ?thesis
    by (simp add: process_exits_1 process_not_started process_no_reconciler_setups
        process_no_webhook_setups)
qed

theorem construction_failure_is_fatal_witness:
  "EvNewManager (manager_options (flag_Parse []) 0) (Inl ''connection refused'')
     \<in> set (trace (main [] env_no_manager))
   \<and> exit_status (trace (main [] env_no_manager)) = Some 1
   \<and> EvStart \<notin> set (trace (main [] env_no_manager))
   \<and> reconciler_setups (trace (main [] env_no_manager)) = []
   \<and> webhook_setups (trace (main [] env_no_manager)) = []
   \<and> exit_status (process [] env_no_manager) = Some 1
   \<and> EvStart \<notin> set (process [] env_no_manager)"
proof -
  have h: "EvNewManager (manager_options (flag_Parse []) 0) (Inl ''connection refused'')
     \<in> set (trace (main [] env_no_manager))"
    by (simp add: main_defs env_no_manager_def env_ok_def)
  from construction_failure_is_fatal [OF h] h show ?thesis by simp
qed

text \<open>
  C8. With no flag on the command line the three variables hold the defaults given at
  their declaration: the metrics address is \<^verbatim>\<open>:8080\<close>, leader election is on and the
  webhook port is 0; so on any cluster the run calls no webhook setup.
\<close>

theorem flag_defaults_when_no_flags:
  "metricsAddr (flag_Parse []) = '':8080''
   \<and> enableLeaderElection (flag_Parse []) = True
   \<and> webhookPort (flag_Parse []) = 0
   \<and> webhook_setups (trace (main [] e)) = []"
  by (cases rule: main_cases [of "[]" e])
    (auto simp: observer_defs flag_Parse_def flag_defaults_def)

text \<open>
  C9. When the call of \<^verbatim>\<open>debug.ListenAndServe\<close> returns an error while the process is
  alive, the process does nothing more than log that error with
  \<^verbatim>\<open>failed to start debug server\<close> and exit with status 1, whatever the cluster answers
  to the main goroutine. And when the listener's call is to fail, the process always ends:
  with status 1, or, if the main goroutine returned from \<^verbatim>\<open>main\<close> before the failure,
  with status 0.
\<close>

theorem debug_listener_failure_is_fatal:
  assumes "debug_ListenAndServe e = Some (k, err)"
  shows "(\<not> list_ex is_exit (main_until k args e) \<longrightarrow>
            process args e =
              main_until k args e @
                [EvError setupLog err ''failed to start debug server'' [], EvExit 1]
            \<and> exit_status (process args e) = Some 1)
         \<and> (exit_status (process args e) = Some 1
            \<or> process args e = trace (main args e) \<and>
              exit_status (trace (main args e)) = Some 0)"
proof (cases "list_ex is_exit (main_until k args e)")
  case True
  then have "list_ex is_exit (trace (main args e))"
    unfolding main_until_def by (rule list_ex_take)
  then have "exit_status (trace (main args e)) = Some 0
      \<or> exit_status (trace (main args e)) = Some 1"
    by (rule main_exit_status)
  moreover from True assms have "process args e = trace (main args e)"
    by (simp add: process_def)
  ultimately show ?thesis using True by auto
next
  case False
  with assms have "process args e =
      main_until k args e @ [EvError setupLog err ''failed to start debug server'' [], EvExit 1]"
    by (simp add: process_def debug_sidecar_def)
  then show ?thesis by (simp add: exit_status_append_exit)
qed

text \<open>The address of the listener is in use, on a cluster where everything else
  succeeds: the process ends before it asks for the configuration of the cluster.\<close>

theorem debug_listener_failure_is_fatal_witness:
  "debug_ListenAndServe env_debug_in_use = Some (0, ''address already in use'')
   \<and> \<not> list_ex is_exit (main_until 0 [] env_debug_in_use)
   \<and> process [] env_debug_in_use =
       [EvSetLogger True, EvGo '':9994'',
        EvError [''setup''] ''address already in use'' ''failed to start debug server'' [],
        EvExit 1]
   \<and> exit_status (process [] env_debug_in_use) = Some 1"
proof -
  have h: "debug_ListenAndServe env_debug_in_use = Some (0, ''address already in use'')"
    by (simp add: env_debug_in_use_def)
  have u: "main_until 0 [] env_debug_in_use = [EvSetLogger True, EvGo '':9994'']"
    by (simp add: main_until_def main_defs env_debug_in_use_def env_ok_def debugAddr_def)
  show ?thesis
    using h u debug_listener_failure_is_fatal [OF h, of "[]"]
    by (simp add: setupLog_def exit_status_def)
qed




end
